theory Spec2Isabelle
  imports Complex_Main "HOL-Library.Char_ord" "HOL-Library.List_Lexorder"
begin

section \<open>Data model\<close>

text \<open>
  Amounts are Python floats in the source; a float is modelled by the real number it
  denotes, and no value is NaN or infinite unless the model says so explicitly. The
  monthly trend and the health score round their results and compare them with
  thresholds; there every operation on floats is explicit and returns a double again
  (section ``Floating-point arithmetic''). Elsewhere sums and quotients are those of the
  real numbers. A date is a string in the source that pandas parses
  (\<^verbatim>\<open>pd.to_datetime\<close>); it is modelled by the calendar date it denotes.
  The category stays the string the source compares with \<^verbatim>\<open>'Income'\<close> and
  \<^verbatim>\<open>'Expense'\<close>.
\<close>

datatype date = YMD (year: nat) (month: nat) (day: nat)

text \<open>\<^verbatim>\<open>dt.to_period('M')\<close>: the calendar month, as an ordinal that orders months
  chronologically.\<close>

definition to_period_M :: "date \<Rightarrow> nat" where
  "to_period_M d = year d * 12 + (month d - 1)"

text \<open>The dataclass \<^verbatim>\<open>Transaction\<close> of \<^verbatim>\<open>modules/data_manager.py\<close>; the rows
  that \<^verbatim>\<open>modules/ai_engine.py\<close> receives are its dictionaries.\<close>

record Transaction =
  txn_id :: string
  date :: date
  amount :: real
  category :: string
  type :: string
  description :: string
  tags :: "string list"
  status :: string
  created_at :: string
  updated_at :: string

section \<open>The transaction store of \<^verbatim>\<open>QuantumDataManager\<close>\<close>

text \<open>The manager's state: the list of transactions, the entry \<^verbatim>\<open>total_value\<close> of the
  portfolio dictionary (which may be absent) and the number of times
  \<^verbatim>\<open>save_data\<close> has written the state out.\<close>

record manager =
  transactions :: "Transaction list"
  portfolio_total_value :: "real option"
  saves :: nat

definition save_data :: "manager \<Rightarrow> manager" where
  "save_data m = m\<lparr>saves := Suc (saves m)\<rparr>"

text \<open>The dictionary handed to \<^verbatim>\<open>add_transaction\<close>: the keys with a default in the
  dataclass, and \<^verbatim>\<open>id\<close>, may be absent.\<close>

record transaction_data =
  d_id :: "string option"
  d_date :: date
  d_amount :: real
  d_category :: string
  d_type :: string
  d_description :: string
  d_tags :: "string list"
  d_status :: "string option"
  d_created_at :: "string option"
  d_updated_at :: "string option"

text \<open>What the identifier synthesis calls from the Python runtime: the rendering of a date
  and of an amount inside an f-string, the MD5 hex digest, and the built-in
  \<^verbatim>\<open>hash\<close> of a string, which depends on the hash seed of the running process.\<close>

record 'seed runtime =
  str_date :: "date \<Rightarrow> string"
  str_amount :: "real \<Rightarrow> string"
  md5_hexdigest :: "string \<Rightarrow> string"
  hash_str :: "'seed \<Rightarrow> string \<Rightarrow> int"

definition generate_id :: "'seed runtime \<Rightarrow> string \<Rightarrow> string" where
  "generate_id rt data = take 12 (md5_hexdigest rt data)"

text \<open>\<^verbatim>\<open>Transaction(**transaction_data)\<close> with \<^verbatim>\<open>__post_init__\<close>: a missing
  \<^verbatim>\<open>created_at\<close> is the current time, a missing \<^verbatim>\<open>updated_at\<close> is
  \<^verbatim>\<open>created_at\<close>.\<close>

definition Transaction_init :: "string \<Rightarrow> string \<Rightarrow> transaction_data \<Rightarrow> Transaction" where
  "Transaction_init now the_id d =
     (let c = (case d_created_at d of None \<Rightarrow> now | Some c \<Rightarrow> c)
      in \<lparr>txn_id = the_id, date = d_date d, amount = d_amount d, category = d_category d,
          type = d_type d, description = d_description d, tags = d_tags d,
          status = (case d_status d of None \<Rightarrow> ''completed'' | Some s \<Rightarrow> s),
          created_at = c,
          updated_at = (case d_updated_at d of None \<Rightarrow> c | Some u \<Rightarrow> u)\<rparr>)"

definition add_transaction ::
  "'seed runtime \<Rightarrow> string \<Rightarrow> transaction_data \<Rightarrow> manager \<Rightarrow> string \<times> manager" where
  "add_transaction rt now d m =
     (let the_id = (case d_id d of
          None \<Rightarrow> generate_id rt
            (str_date rt (d_date d) @ ''_'' @ str_amount rt (d_amount d) @ ''_'' @ d_description d)
        | Some i \<Rightarrow> i);
          transaction = Transaction_init now the_id d
      in (txn_id transaction, save_data (m\<lparr>transactions := transactions m @ [transaction]\<rparr>)))"

text \<open>The \<^verbatim>\<open>updates\<close> dictionary: any subset of the fields. The key
  \<^verbatim>\<open>updated_at\<close> is left out, as the source overwrites it with the current time.\<close>

record updates =
  u_id :: "string option"
  u_date :: "date option"
  u_amount :: "real option"
  u_category :: "string option"
  u_type :: "string option"
  u_description :: "string option"
  u_tags :: "string list option"
  u_status :: "string option"
  u_created_at :: "string option"

definition or_else :: "'a option \<Rightarrow> 'a \<Rightarrow> 'a" where
  "or_else u v = (case u of None \<Rightarrow> v | Some w \<Rightarrow> w)"

text \<open>\<^verbatim>\<open>{**asdict(txn), **updates}\<close> with \<^verbatim>\<open>updated_at\<close> set to now.\<close>

definition apply_updates :: "string \<Rightarrow> updates \<Rightarrow> Transaction \<Rightarrow> Transaction" where
  "apply_updates now u txn =
     \<lparr>txn_id = or_else (u_id u) (txn_id txn), date = or_else (u_date u) (date txn),
      amount = or_else (u_amount u) (amount txn), category = or_else (u_category u) (category txn),
      type = or_else (u_type u) (type txn), description = or_else (u_description u) (description txn),
      tags = or_else (u_tags u) (tags txn), status = or_else (u_status u) (status txn),
      created_at = or_else (u_created_at u) (created_at txn), updated_at = now\<rparr>"

text \<open>The loop of \<^verbatim>\<open>update_transaction\<close>: the first transaction with the identifier is
  replaced and the loop returns; \<open>None\<close> when the loop runs to its end.\<close>

fun update_loop :: "string \<Rightarrow> string \<Rightarrow> updates \<Rightarrow> Transaction list \<Rightarrow> Transaction list option" where
  "update_loop now transaction_id u [] = None"
| "update_loop now transaction_id u (txn # rest) =
     (if txn_id txn = transaction_id then Some (apply_updates now u txn # rest)
      else map_option ((#) txn) (update_loop now transaction_id u rest))"

definition update_transaction :: "string \<Rightarrow> string \<Rightarrow> updates \<Rightarrow> manager \<Rightarrow> bool \<times> manager" where
  "update_transaction now transaction_id u m =
     (case update_loop now transaction_id u (transactions m) of
        Some txns \<Rightarrow> (True, save_data (m\<lparr>transactions := txns\<rparr>))
      | None \<Rightarrow> (False, m))"

definition delete_transaction :: "string \<Rightarrow> manager \<Rightarrow> bool \<times> manager" where
  "delete_transaction transaction_id m =
     (let initial_length = length (transactions m);
          m' = m\<lparr>transactions := filter (\<lambda>txn. txn_id txn \<noteq> transaction_id) (transactions m)\<rparr>
      in if length (transactions m') < initial_length then (True, save_data m') else (False, m'))"

section \<open>Series and data frames\<close>

text \<open>A data frame is the list of its rows, a series the list of its values.
  \<^verbatim>\<open>groupby(key)[col].sum()\<close> has one entry for each key that occurs, in ascending
  order of the keys.\<close>

definition groupby_sum :: "('r \<Rightarrow> 'k::linorder) \<Rightarrow> ('r \<Rightarrow> real) \<Rightarrow> 'r list \<Rightarrow> ('k \<times> real) list" where
  "groupby_sum key col rows =
     map (\<lambda>k. (k, sum_list (map col (filter (\<lambda>r. key r = k) rows))))
       (sort (remdups (map key rows)))"

definition mean :: "real list \<Rightarrow> real" where
  "mean xs = sum_list xs / real (length xs)"


text \<open>\<^verbatim>\<open>np.std\<close>: the denominator is \<open>n\<close>.\<close>

definition np_std :: "real list \<Rightarrow> real" where
  "np_std xs = sqrt (sum_list (map (\<lambda>x. (x - mean xs)\<^sup>2) xs) / real (length xs))"

text \<open>\<^verbatim>\<open>tail(n)\<close>: the last \<open>n\<close> values, all of them when there are fewer.\<close>

definition tail :: "nat \<Rightarrow> 'a list \<Rightarrow> 'a list" where
  "tail n xs = drop (length xs - n) xs"

text \<open>Rounding to the nearest integer, a tie to the even one, and \<^verbatim>\<open>round(x, n)\<close> on
  the exact value: to the nearest multiple of \<open>10\<^sup>-\<^sup>n\<close>.\<close>

definition round_half_even :: "real \<Rightarrow> int" where
  "round_half_even x =
     (let f = \<lfloor>x\<rfloor>; d = x - of_int f
      in if d < 1 / 2 then f else if 1 / 2 < d then f + 1 else if even f then f else f + 1)"


section \<open>Floating-point arithmetic\<close>

text \<open>
  The arithmetic of the floats, as far as the source depends on it: \<open>rnd\<close> sends a real
  number to the nearest double, and each of the four operations returns the double nearest
  to its exact result, as IEEE 754 prescribes. The sums of the libraries differ in the order
  and the compensation of their additions, so \<^verbatim>\<open>Series.sum()\<close> and the sum of one
  group of \<^verbatim>\<open>groupby(...).sum()\<close> are operations of their own, and so is
  \<^verbatim>\<open>round(x, n)\<close> of a NumPy float.
\<close>

record float_ops =
  rnd :: "real \<Rightarrow> real"
  series_sum :: "real list \<Rightarrow> real"
  group_sum :: "real list \<Rightarrow> real"
  np_round :: "real \<Rightarrow> nat \<Rightarrow> real"

definition fadd :: "float_ops \<Rightarrow> real \<Rightarrow> real \<Rightarrow> real" where
  "fadd ops x y = rnd ops (x + y)"

definition fsub :: "float_ops \<Rightarrow> real \<Rightarrow> real \<Rightarrow> real" where
  "fsub ops x y = rnd ops (x - y)"

definition fmul :: "float_ops \<Rightarrow> real \<Rightarrow> real \<Rightarrow> real" where
  "fmul ops x y = rnd ops (x * y)"

definition fdiv :: "float_ops \<Rightarrow> real \<Rightarrow> real \<Rightarrow> real" where
  "fdiv ops x y = rnd ops (x / y)"

text \<open>\<^verbatim>\<open>groupby(key)[col].sum()\<close> on floats.\<close>

definition groupby_fsum ::
  "float_ops \<Rightarrow> ('r \<Rightarrow> 'k::linorder) \<Rightarrow> ('r \<Rightarrow> real) \<Rightarrow> 'r list \<Rightarrow> ('k \<times> real) list" where
  "groupby_fsum ops key col rows =
     map (\<lambda>k. (k, group_sum ops (map col (filter (\<lambda>r. key r = k) rows))))
       (sort (remdups (map key rows)))"

text \<open>A Python number is an \<^verbatim>\<open>int\<close> or a float: \<^verbatim>\<open>min\<close> and \<^verbatim>\<open>max\<close> return one
  of their arguments as it is (the first where neither is smaller or larger), and
  \<^verbatim>\<open>round\<close> leaves an \<^verbatim>\<open>int\<close> as it is.\<close>

datatype number = PyInt int | PyFloat real

fun num_val :: "number \<Rightarrow> real" where
  "num_val (PyInt i) = of_int i"
| "num_val (PyFloat x) = x"

definition py_min :: "number \<Rightarrow> number \<Rightarrow> number" where
  "py_min a b = (if num_val b < num_val a then b else a)"

definition py_max :: "number \<Rightarrow> number \<Rightarrow> number" where
  "py_max a b = (if num_val a < num_val b then b else a)"

fun round_number :: "float_ops \<Rightarrow> number \<Rightarrow> nat \<Rightarrow> real" where
  "round_number ops (PyInt i) n = of_int i"
| "round_number ops (PyFloat x) n = np_round ops x n"

subsection \<open>IEEE binary64\<close>

text \<open>The doubles with rounding to nearest, ties to even, for results in the normal range
  (no overflow, no subnormal numbers): a real number \<open>x\<close> with
  \<open>2\<^sup>e \<le> \<bar>x\<bar> < 2\<^sup>e\<^sup>+\<^sup>1\<close> is rounded to a multiple of \<open>2\<^sup>e\<^sup>-\<^sup>5\<^sup>2\<close>.\<close>

definition pow2 :: "int \<Rightarrow> real" where
  "pow2 e = (if 0 \<le> e then 2 ^ nat e else 1 / 2 ^ nat (- e))"

definition round_to_double :: "real \<Rightarrow> real" where
  "round_to_double x =
     (if x = 0 then 0
      else (let u = pow2 (\<lfloor>log 2 \<bar>x\<bar>\<rfloor> - 52)
            in of_int (round_half_even (x / u)) * u))"

text \<open>The sum that adds the values from left to right.\<close>

definition sequential_sum :: "real list \<Rightarrow> real" where
  "sequential_sum xs = foldl (\<lambda>a x. round_to_double (a + x)) 0 xs"

text \<open>\<^verbatim>\<open>round(x, n)\<close> as NumPy computes it: scale by \<open>10\<^sup>n\<close>, round to the nearest
  integer, scale back.\<close>

definition around :: "real \<Rightarrow> nat \<Rightarrow> real" where
  "around x n =
     round_to_double (of_int (round_half_even (round_to_double (x * 10 ^ n))) / 10 ^ n)"

definition binary64 :: float_ops where
  "binary64 =
     \<lparr>rnd = round_to_double, series_sum = sequential_sum, group_sum = sequential_sum,
      np_round = around\<rparr>"

section \<open>\<^verbatim>\<open>AIFinancialEngine\<close>\<close>

text \<open>\<^verbatim>\<open>df[df['category'] == 'Expense']\<close> and its counterpart for income.\<close>

definition expense_df :: "Transaction list \<Rightarrow> Transaction list" where
  "expense_df df = filter (\<lambda>r. category r = ''Expense'') df"

definition income_df :: "Transaction list \<Rightarrow> Transaction list" where
  "income_df df = filter (\<lambda>r. category r = ''Income'') df"

definition month_col :: "Transaction \<Rightarrow> nat" where
  "month_col r = to_period_M (date r)"

subsection \<open>\<^verbatim>\<open>calculate_monthly_trend\<close>\<close>

datatype trend_label = increasing | decreasing | stable

text \<open>The two keys \<^verbatim>\<open>current_month\<close> and \<^verbatim>\<open>average_monthly\<close> are absent from the
  dictionary returned for fewer than two months.\<close>

record monthly_trend =
  trend :: trend_label
  change_percent :: real
  current_month :: "real option"
  average_monthly :: "real option"

text \<open>The change is a float, or the \<^verbatim>\<open>int\<close> 0 where the previous month is 0.\<close>

definition calculate_monthly_trend :: "float_ops \<Rightarrow> Transaction list \<Rightarrow> monthly_trend" where
  "calculate_monthly_trend ops df =
     (let monthly_data = map snd (groupby_fsum ops month_col amount (expense_df df))
      in if length monthly_data < 2
         then \<lparr>trend = stable, change_percent = 0, current_month = None, average_monthly = None\<rparr>
         else
           (let current = last monthly_data;
                previous = monthly_data ! (length monthly_data - 2);
                change = (if previous \<noteq> 0
                          then PyFloat (fmul ops (fdiv ops (fsub ops current previous) previous) 100)
                          else PyInt 0);
                t = (if 5 < num_val change then increasing
                     else if num_val change < - 5 then decreasing else stable)
            in \<lparr>trend = t, change_percent = round_number ops change 1,
                current_month = Some current,
                average_monthly =
                  Some (fdiv ops (series_sum ops monthly_data) (real (length monthly_data)))\<rparr>))"

subsection \<open>\<^verbatim>\<open>forecast_spending\<close>\<close>

text \<open>One forecast entry. The source labels it with the year and month of the day
  \<open>days_ahead\<close> days after the current date.\<close>

record forecast_entry =
  days_ahead :: nat
  predicted_amount :: real
  confidence :: real

definition forecast_spending :: "Transaction list \<Rightarrow> nat \<Rightarrow> forecast_entry list" where
  "forecast_spending df months =
     (let e = expense_df df
      in if length e < 3 then []
         else
           (let monthly_expenses = map snd (groupby_sum month_col amount e);
                last_values = tail 3 monthly_expenses;
                avg_spending = mean last_values
            in map (\<lambda>i. \<lparr>days_ahead = 30 * (i + 1),
                          predicted_amount = avg_spending * (1 + 2 / 100 * real i),
                          confidence = max (7 / 10 - real i * (1 / 10)) (3 / 10)\<rparr>)
                 [0 ..< months]))"

subsection \<open>\<^verbatim>\<open>detect_anomalies\<close>\<close>




subsection \<open>\<^verbatim>\<open>calculate_financial_health_score\<close>\<close>

definition calculate_diversity_score :: "Transaction list \<Rightarrow> number" where
  "calculate_diversity_score df =
     py_min (PyInt (int (length (remdups (map type (income_df df)))) * 20)) (PyInt 100)"

text \<open>The growth rate divides by the income of the first month. Where that is 0 the
  quotient of the floats is infinite or NaN: the clamp sends an infinite rate to the
  \<^verbatim>\<open>int\<close> 100 or 0, by its sign, and leaves a NaN (\<open>None\<close>).\<close>

definition calculate_growth_score :: "float_ops \<Rightarrow> Transaction list \<Rightarrow> number option" where
  "calculate_growth_score ops df =
     (let monthly_income = map snd (groupby_fsum ops month_col amount (income_df df))
      in if length monthly_income < 2 then Some (PyInt 50)
         else
           (let first = hd monthly_income; final = last monthly_income
            in if first = 0
               then (if 0 < final then Some (PyInt 100)
                     else if final < 0 then Some (PyInt 0) else None)
               else
                 (let growth_rate = fmul ops (fdiv ops (fsub ops final first) first) 100
                  in Some (py_min
                       (py_max (PyFloat (fadd ops (fmul ops growth_rate 5) 50)) (PyInt 0))
                       (PyInt 100)))))"

record breakdown =
  b_savings_rate :: real
  b_expense_ratio :: real
  savings_score :: real
  stability_score :: real
  diversity_score :: real
  growth_score :: "real option"

definition generate_health_recommendations :: "breakdown \<Rightarrow> string list" where
  "generate_health_recommendations b =
     (if b_savings_rate b < 20 then [''Increase savings rate to at least 20% of income''] else [])
     @ (if 80 < b_expense_ratio b then [''Reduce expenses to below 80% of income''] else [])
     @ (if diversity_score b < 60 then [''Diversify income sources for better stability''] else [])
     @ (if savings_score b < 70 then [''Focus on building emergency fund''] else [])"

text \<open>The result dictionary. An empty \<^verbatim>\<open>breakdown\<close> dictionary is \<open>None\<close>; a score
  that is NaN is \<open>None\<close>.\<close>

record health =
  score :: "real option"
  h_breakdown :: "breakdown option"
  recommendations :: "string list"

definition calculate_financial_health_score :: "float_ops \<Rightarrow> Transaction list \<Rightarrow> health" where
  "calculate_financial_health_score ops df =
     (if df = [] then \<lparr>score = Some 0, h_breakdown = None, recommendations = []\<rparr>
      else
        (let total_income = series_sum ops (map amount (income_df df));
             total_expenses = series_sum ops (map amount (expense_df df))
         in if total_income = 0
            then \<lparr>score = Some 0, h_breakdown = None, recommendations = []\<rparr>
            else
              (let savings_rate =
                     fmul ops (fdiv ops (fsub ops total_income total_expenses) total_income) 100;
                   expense_ratio = fmul ops (fdiv ops total_expenses total_income) 100;
                   savings = py_min (PyFloat (fmul ops savings_rate 2)) (PyInt 100);
                   stability = PyInt (if 10 < length df then 80 else 40);
                   diversity = calculate_diversity_score df;
                   growth = calculate_growth_score ops df;
                   overall_score = map_option
                     (\<lambda>g. fadd ops
                            (fadd ops
                              (fadd ops (fmul ops (num_val savings) (rnd ops (4 / 10)))
                                        (fmul ops (num_val stability) (rnd ops (3 / 10))))
                              (fmul ops (num_val diversity) (rnd ops (2 / 10))))
                            (fmul ops (num_val g) (rnd ops (1 / 10))))
                     growth;
                   b = \<lparr>b_savings_rate = np_round ops savings_rate 1,
                        b_expense_ratio = np_round ops expense_ratio 1,
                        savings_score = round_number ops savings 1,
                        stability_score = round_number ops stability 1,
                        diversity_score = round_number ops diversity 1,
                        growth_score = map_option (\<lambda>g. round_number ops g 1) growth\<rparr>
               in \<lparr>score = map_option (\<lambda>s. np_round ops s 1) overall_score,
                   h_breakdown = Some b,
                   recommendations = generate_health_recommendations b\<rparr>)))"

section \<open>\<^verbatim>\<open>QuantumDataManager.get_financial_summary\<close>\<close>

text \<open>The dictionary of \<^verbatim>\<open>groupby('type')['amount'].sum().to_dict()\<close>: the pairs of a
  subcategory and its sum, each subcategory once.\<close>

type_synonym breakdown_dict = "(string \<times> real) list"

record dm_summary =
  dm_total_income :: real
  dm_total_expenses :: real
  net_worth :: real
  dm_current_month_income :: real
  dm_current_month_expenses :: real
  dm_savings_rate :: real
  dm_expense_breakdown :: breakdown_dict
  dm_income_breakdown :: breakdown_dict
  dm_transaction_count :: nat
  portfolio_value :: real
  last_updated :: string

definition get_empty_summary :: "string \<Rightarrow> dm_summary" where
  "get_empty_summary now =
     \<lparr>dm_total_income = 0, dm_total_expenses = 0, net_worth = 0, dm_current_month_income = 0,
      dm_current_month_expenses = 0, dm_savings_rate = 0, dm_expense_breakdown = [],
      dm_income_breakdown = [], dm_transaction_count = 0, portfolio_value = 0,
      last_updated = now\<rparr>"

text \<open>\<open>today\<close> is the current date, \<open>now\<close> its ISO timestamp. A row belongs to the
  current month when its date has the year and the month of \<open>today\<close>.\<close>

definition in_month :: "date \<Rightarrow> Transaction \<Rightarrow> bool" where
  "in_month today r \<longleftrightarrow> year (date r) = year today \<and> month (date r) = month today"

definition get_financial_summary :: "date \<Rightarrow> string \<Rightarrow> manager \<Rightarrow> dm_summary" where
  "get_financial_summary today now m =
     (if transactions m = [] then get_empty_summary now
      else
        (let df = transactions m;
             total_income = sum_list (map amount (income_df df));
             total_expenses = sum_list (map amount (expense_df df));
             total_value = or_else (portfolio_total_value m) 0;
             monthly_income = sum_list (map amount (filter (in_month today) (income_df df)));
             monthly_expenses = sum_list (map amount (filter (in_month today) (expense_df df)));
             savings_rate = (if 0 < monthly_income
                             then (monthly_income - monthly_expenses) / monthly_income * 100
                             else 0)
         in \<lparr>dm_total_income = total_income, dm_total_expenses = total_expenses,
             net_worth = total_income - total_expenses + total_value,
             dm_current_month_income = monthly_income,
             dm_current_month_expenses = monthly_expenses,
             dm_savings_rate = savings_rate,
             dm_expense_breakdown = groupby_sum type amount (expense_df df),
             dm_income_breakdown = groupby_sum type amount (income_df df),
             dm_transaction_count = length df,
             portfolio_value = total_value,
             last_updated = now\<rparr>))"

section \<open>\<^verbatim>\<open>finance_core.py\<close>\<close>

text \<open>The dataclass \<^verbatim>\<open>Transaction\<close> of \<^verbatim>\<open>finance_core.py\<close>, under the column
  names that \<^verbatim>\<open>get_transactions_df\<close> gives its fields.\<close>

record fc_Transaction =
  Date :: date
  Amount :: real
  Category :: string
  Subcategory :: string
  Description :: string
  ID :: string

text \<open>Python's \<^verbatim>\<open>str\<close> of an integer.\<close>

definition digit_char :: "nat \<Rightarrow> char" where
  "digit_char d = ''0123456789'' ! d"

fun str_nat :: "nat \<Rightarrow> string" where
  "str_nat n = (if n < 10 then [digit_char n] else str_nat (n div 10) @ [digit_char (n mod 10)])"

declare str_nat.simps [simp del]

definition str_int :: "int \<Rightarrow> string" where
  "str_int i = (if i < 0 then CHR ''-'' # str_nat (nat (- i)) else str_nat (nat i))"

text \<open>The constructor with \<^verbatim>\<open>__post_init__\<close>: a transaction created without an
  identifier gets one from its date, its amount and the hash of its description, in the
  process whose hash seed is \<open>seed\<close>.\<close>

definition fc_Transaction_init ::
  "'seed runtime \<Rightarrow> 'seed \<Rightarrow> date \<Rightarrow> real \<Rightarrow> string \<Rightarrow> string \<Rightarrow> string \<Rightarrow> string option
     \<Rightarrow> fc_Transaction" where
  "fc_Transaction_init rt seed d a c sub descr i =
     \<lparr>Date = d, Amount = a, Category = c, Subcategory = sub, Description = descr,
      ID = (case i of
              None \<Rightarrow> str_date rt d @ ''_'' @ str_amount rt a @ ''_'' @ str_int (hash_str rt seed descr)
            | Some given \<Rightarrow> given)\<rparr>"

record finance_manager =
  fm_transactions :: "fc_Transaction list"
  fm_saves :: nat

definition FinanceManager_add_transaction :: "fc_Transaction \<Rightarrow> finance_manager \<Rightarrow> finance_manager" where
  "FinanceManager_add_transaction transaction fm =
     fm\<lparr>fm_transactions := fm_transactions fm @ [transaction], fm_saves := Suc (fm_saves fm)\<rparr>"

subsection \<open>\<^verbatim>\<open>FinanceManager.get_financial_summary\<close>\<close>

datatype py_error = TypeError | ValueError

record summary =
  total_income :: real
  total_expenses :: real
  net_balance :: real
  current_month_income :: real
  current_month_expense :: real
  savings_rate :: real
  expense_ratio :: real
  expense_breakdown :: breakdown_dict
  income_breakdown :: breakdown_dict
  transaction_count :: nat
  avg_monthly_income :: real
  avg_monthly_expense :: real

definition fc_get_empty_summary :: summary where
  "fc_get_empty_summary =
     \<lparr>total_income = 0, total_expenses = 0, net_balance = 0, current_month_income = 0,
      current_month_expense = 0, savings_rate = 0, expense_ratio = 0, expense_breakdown = [],
      income_breakdown = [], transaction_count = 0, avg_monthly_income = 0,
      avg_monthly_expense = 0\<rparr>"

definition Income_rows :: "fc_Transaction list \<Rightarrow> fc_Transaction list" where
  "Income_rows df = filter (\<lambda>r. Category r = ''Income'') df"

definition Expense_rows :: "fc_Transaction list \<Rightarrow> fc_Transaction list" where
  "Expense_rows df = filter (\<lambda>r. Category r = ''Expense'') df"

definition Month :: "fc_Transaction \<Rightarrow> nat" where
  "Month r = to_period_M (Date r)"

text \<open>The income column of the per-month table \<^verbatim>\<open>monthly_data\<close>: one entry for each
  month with a transaction, in chronological order.\<close>

definition monthly_Income :: "fc_Transaction list \<Rightarrow> (nat \<times> real) list" where
  "monthly_Income df =
     map (\<lambda>k. (k, sum_list (map Amount (Income_rows (filter (\<lambda>r. Month r = k) df)))))
       (sort (remdups (map Month df)))"

text \<open>
  The expense column of \<^verbatim>\<open>monthly_data\<close> is aggregated from the column
  \<^verbatim>\<open>Category\<close>, not from \<^verbatim>\<open>Amount\<close>: the entry of a month is the sum of the strings
  \<^verbatim>\<open>'Expense'\<close> of its expense rows, which is 0 for a month without one and their
  concatenation otherwise. The summary ends with the mean of that column, which is a
  \<^verbatim>\<open>TypeError\<close> as soon as one entry is a string. So the function returns a summary
  at most for transactions without an expense row, and the two per-month expense entries
  are then 0. Whether it returns one then depends on the library: \<open>object_strings\<close>
  says that the library keeps strings in a column of dtype \<^verbatim>\<open>object\<close> (pandas before 3),
  where the sum of no strings is the number 0; with the string dtype of pandas 3 that sum
  is no number either and the function raises for every transaction list that is not
  empty. \<open>today\<close> is the current date.
\<close>

definition FinanceManager_get_financial_summary ::
  "bool \<Rightarrow> date \<Rightarrow> finance_manager \<Rightarrow> py_error + summary" where
  "FinanceManager_get_financial_summary object_strings today fm =
     (let df = fm_transactions fm
      in if df = [] then Inr fc_get_empty_summary
         else
           (let ti = sum_list (map Amount (Income_rows df));
                te = sum_list (map Amount (Expense_rows df));
                nb = ti - te;
                monthly_data = monthly_Income df;
                current_month_data =
                  (case map_of monthly_data (to_period_M today) of Some v \<Rightarrow> v | None \<Rightarrow> 0)
            in if object_strings \<and> Expense_rows df = []
               then Inr
                 \<lparr>total_income = ti, total_expenses = te, net_balance = nb,
                  current_month_income = current_month_data,
                  current_month_expense = 0,
                  savings_rate = (if 0 < ti then nb / ti * 100 else 0),
                  expense_ratio = (if 0 < ti then te / ti * 100 else 0),
                  expense_breakdown = groupby_sum Subcategory Amount (Expense_rows df),
                  income_breakdown = groupby_sum Subcategory Amount (Income_rows df),
                  transaction_count = length df,
                  avg_monthly_income = mean (map snd monthly_data),
                  avg_monthly_expense = 0\<rparr>
               else Inl TypeError))"

subsection \<open>\<^verbatim>\<open>AIPredictor.predict_future_balance\<close>\<close>

text \<open>The per-month table: one row for each month with a transaction, in chronological
  order, holding the balance (income less expenses) of the month.\<close>

definition monthly_Balance :: "fc_Transaction list \<Rightarrow> real list" where
  "monthly_Balance df =
     map (\<lambda>k. let g = filter (\<lambda>r. Month r = k) df
              in sum_list (map Amount (Income_rows g)) - sum_list (map Amount (Expense_rows g)))
       (sort (remdups (map Month df)))"

text \<open>\<^verbatim>\<open>LinearRegression().fit\<close> on the points \<open>(0, y\<^sub>0), (1, y\<^sub>1), \<dots>\<close>: the
  least-squares line, as slope and intercept.\<close>

definition linear_fit :: "real list \<Rightarrow> real \<times> real" where
  "linear_fit ys =
     (let xs = map real [0 ..< length ys];
          xm = mean xs; ym = mean ys;
          slope = sum_list (map (\<lambda>(x, y). (x - xm) * (y - ym)) (zip xs ys))
                  / sum_list (map (\<lambda>x. (x - xm)\<^sup>2) xs)
      in (slope, ym - slope * xm))"

text \<open>\<^verbatim>\<open>model.score\<close>: the coefficient of determination, which the library sets to 1
  for an exact fit and to 0 where only the total sum of squares vanishes.\<close>

definition r2_score :: "real list \<Rightarrow> real list \<Rightarrow> real" where
  "r2_score ys preds =
     (let numerator = sum_list (map (\<lambda>(y, p). (y - p)\<^sup>2) (zip ys preds));
          denominator = sum_list (map (\<lambda>y. (y - mean ys)\<^sup>2) ys)
      in if numerator = 0 then 1 else if denominator = 0 then 0 else 1 - numerator / denominator)"

record prediction =
  p_month :: nat
  predicted_balance :: real
  confidence_low :: real
  confidence_high :: real

record forecast =
  predictions :: "prediction list"
  r_squared :: real
  current_trend :: trend_label

text \<open>The result is \<open>Inr None\<close> for the empty dictionary. With no month to predict the
  library's \<^verbatim>\<open>predict\<close> rejects the empty input.\<close>

definition predict_future_balance :: "finance_manager \<Rightarrow> nat \<Rightarrow> py_error + forecast option" where
  "predict_future_balance fm months =
     (let df = fm_transactions fm
      in if df = [] \<or> length df < 3 then Inr None
         else
           (let y = monthly_Balance df; n = length y
            in if n < 2 then Inr None
               else
                 (let (slope, intercept) = linear_fit y;
                      predict = (\<lambda>x. intercept + slope * real x)
                  in if months = 0 then Inl ValueError
                     else
                       (let future_predictions = map predict [n ..< n + months];
                            fitted = map predict [0 ..< n];
                            std_dev = np_std (map (\<lambda>(v, p). v - p) (zip y fitted));
                            margin_error = std_dev * (196 / 100)
                        in Inr (Some
                             \<lparr>predictions =
                                map (\<lambda>(i, pred).
                                       \<lparr>p_month = n + i, predicted_balance = max 0 pred,
                                        confidence_low = max 0 (pred - margin_error),
                                        confidence_high = max 0 (pred + margin_error)\<rparr>)
                                  (enumerate 0 future_predictions),
                              r_squared = r2_score y fitted,
                              current_trend =
                                (if hd future_predictions < last future_predictions
                                 then increasing else decreasing)\<rparr>)))))"

section \<open>The quantities of the specification\<close>

text \<open>The months that have an expense row, and the expenses of one month.\<close>

definition expense_months :: "Transaction list \<Rightarrow> nat set" where
  "expense_months df = month_col ` set (expense_df df)"

definition month_expenses :: "float_ops \<Rightarrow> Transaction list \<Rightarrow> nat \<Rightarrow> real" where
  "month_expenses ops df k =
     group_sum ops (map amount (filter (\<lambda>r. month_col r = k) (expense_df df)))"

text \<open>The month-over-month change in percent, as the specification words it:
  \<open>(current - previous) / previous * 100\<close> when \<open>previous\<close> is not 0, else 0; the
  operations are those of the floats.\<close>

definition month_over_month :: "float_ops \<Rightarrow> real \<Rightarrow> real \<Rightarrow> real" where
  "month_over_month ops current previous =
     (if previous \<noteq> 0 then fmul ops (fdiv ops (fsub ops current previous) previous) 100 else 0)"



section \<open>Example data\<close>

definition row :: "string \<Rightarrow> date \<Rightarrow> real \<Rightarrow> string \<Rightarrow> string \<Rightarrow> Transaction" where
  "row i d a c ty =
     \<lparr>txn_id = i, date = d, amount = a, category = c, type = ty, description = ''entry'',
      tags = [], status = ''completed'', created_at = ''2024-01-01T09:00:00'',
      updated_at = ''2024-01-01T09:00:00''\<rparr>"

definition fc_row :: "date \<Rightarrow> real \<Rightarrow> string \<Rightarrow> string \<Rightarrow> fc_Transaction" where
  "fc_row d a c sub =
     \<lparr>Date = d, Amount = a, Category = c, Subcategory = sub, Description = ''entry'',
      ID = ''given''\<rparr>"

text \<open>A stand-in for the Python runtime, enough to run the examples: its hash of a string
  adds the seed of the process to the length of the string.\<close>

definition toy_runtime :: "nat runtime" where
  "toy_runtime =
     \<lparr>str_date = (\<lambda>d. str_nat (year d) @ ''-'' @ str_nat (month d) @ ''-'' @ str_nat (day d)),
      str_amount = (\<lambda>a. str_int \<lfloor>a\<rfloor>),
      md5_hexdigest = (\<lambda>s. s),
      hash_str = (\<lambda>seed s. int seed + int (length s))\<rparr>"

definition empty_manager :: manager where
  "empty_manager = \<lparr>transactions = [], portfolio_total_value = None, saves = 0\<rparr>"

definition one_expense :: manager where
  "one_expense =
     \<lparr>transactions = [row ''t1'' (YMD 2024 1 16) 8500 ''Expense'' ''Food''],
      portfolio_total_value = None, saves = 0\<rparr>"

definition no_updates :: updates where
  "no_updates =
     \<lparr>u_id = None, u_date = None, u_amount = None, u_category = None, u_type = None,
      u_description = None, u_tags = None, u_status = None, u_created_at = None\<rparr>"

definition negative_data :: transaction_data where
  "negative_data =
     \<lparr>d_id = None, d_date = YMD 2024 1 16, d_amount = - 5, d_category = ''Expense'',
      d_type = ''Food'', d_description = ''Refund'', d_tags = [], d_status = None,
      d_created_at = None, d_updated_at = None\<rparr>"

definition overspent :: "Transaction list" where
  "overspent =
     [row ''t1'' (YMD 2024 1 15) 100 ''Income'' ''Salary'',
      row ''t2'' (YMD 2024 1 16) 200 ''Expense'' ''Food'']"

definition one_month :: "fc_Transaction list" where
  "one_month =
     [fc_row (YMD 2024 1 15) 1000 ''Income'' ''Salary'',
      fc_row (YMD 2024 1 16) 300 ''Expense'' ''Food'',
      fc_row (YMD 2024 1 20) 200 ''Expense'' ''Food'']"

text \<open>Expenses of 80 in January and 103 in February. In doubles their change in percent
  is \<open>28.749999999999996\<close>, and the double nearest to \<open>28.7\<close> is the one below.\<close>

definition rising :: "Transaction list" where
  "rising =
     [row ''t1'' (YMD 2024 1 16) 80 ''Expense'' ''Food'',
      row ''t2'' (YMD 2024 2 5) 103 ''Expense'' ''Food'']"

definition change_80_103 :: real where
  "change_80_103 = 8092405580431359 / 2 ^ 48"

definition double_28_7 :: real where
  "double_28_7 = 8078331831595827 / 2 ^ 48"

text \<open>An income of 80 and an expense of 23: the expense ratio is the same quotient.\<close>

definition thrifty :: "Transaction list" where
  "thrifty =
     [row ''t1'' (YMD 2024 1 15) 80 ''Income'' ''Salary'',
      row ''t2'' (YMD 2024 1 16) 23 ''Expense'' ''Food'']"

text \<open>Expenses of 61.4 in January and 64.47 in February, as the doubles nearest to these
  decimals.\<close>

definition double_61_4 :: real where
  "double_61_4 = 8641281785017139 / 2 ^ 47"

definition double_64_47 :: real where
  "double_64_47 = 4536672937133998 / 2 ^ 46"

definition steady :: "Transaction list" where
  "steady =
     [row ''t1'' (YMD 2024 1 16) double_61_4 ''Expense'' ''Food'',
      row ''t2'' (YMD 2024 2 5) double_64_47 ''Expense'' ''Food'']"

text \<open>The scenario of the specification: an income of 1000 and two expenses on food, of
  300 and 200, in one month.\<close>

definition scenario :: manager where
  "scenario =
     \<lparr>transactions =
        [row ''t1'' (YMD 2024 1 15) 1000 ''Income'' ''Salary'',
         row ''t2'' (YMD 2024 1 16) 300 ''Expense'' ''Food'',
         row ''t3'' (YMD 2024 1 20) 200 ''Expense'' ''Food''],
      portfolio_total_value = None, saves = 0\<rparr>"

definition two_months :: "Transaction list" where
  "two_months =
     [row ''t1'' (YMD 2024 1 16) 100 ''Expense'' ''Food'',
      row ''t2'' (YMD 2024 2 5) 150 ''Expense'' ''Food'',
      row ''t3'' (YMD 2024 2 9) 50 ''Expense'' ''Bills'',
      row ''t4'' (YMD 2024 2 10) 900 ''Income'' ''Salary'']"

definition january_expenses :: "Transaction list" where
  "january_expenses =
     [row ''t1'' (YMD 2024 1 5) 100 ''Expense'' ''Food'',
      row ''t2'' (YMD 2024 1 12) 200 ''Expense'' ''Food'',
      row ''t3'' (YMD 2024 1 19) 300 ''Expense'' ''Bills'']"




definition expenses_only :: "fc_Transaction list" where
  "expenses_only =
     [fc_row (YMD 2024 1 16) 300 ''Expense'' ''Food'',
      fc_row (YMD 2024 2 20) 200 ''Expense'' ''Bills'']"

section \<open>Properties of the transaction store\<close>

lemma update_loop_None_iff:
  "update_loop now i u txns = None \<longleftrightarrow> (\<forall>t \<in> set txns. txn_id t \<noteq> i)"
  by (induction txns) auto

lemma filter_length_less_iff:
  "length (filter P xs) < length xs \<longleftrightarrow> (\<exists>x \<in> set xs. \<not> P x)"
proof (induction xs)
  case Nil
  then show ?case by simp
next
  case (Cons x xs)
  have "length (filter P xs) \<le> length xs" by simp
  with Cons show ?case by auto
qed

text \<open>
  C9. For an identifier that no stored transaction has, \<open>update_transaction\<close> and
  \<open>delete_transaction\<close> return \<open>False\<close> and leave the manager as it was: the same
  transactions, and nothing saved. Each returns \<open>True\<close> exactly when a transaction with
  the identifier is stored.
\<close>

theorem update_delete_unknown_id:
  "((\<forall>t \<in> set (transactions m). txn_id t \<noteq> i) \<longrightarrow>
      update_transaction now i u m = (False, m) \<and> delete_transaction i m = (False, m))
   \<and> (fst (update_transaction now i u m) \<longleftrightarrow> (\<exists>t \<in> set (transactions m). txn_id t = i))
   \<and> (fst (delete_transaction i m) \<longleftrightarrow> (\<exists>t \<in> set (transactions m). txn_id t = i))"
proof (intro conjI impI)
  assume absent: "\<forall>t \<in> set (transactions m). txn_id t \<noteq> i"
  then have "update_loop now i u (transactions m) = None"
    by (simp add: update_loop_None_iff)
  then show "update_transaction now i u m = (False, m)"
    by (simp add: update_transaction_def)
  from absent have "filter (\<lambda>txn. txn_id txn \<noteq> i) (transactions m) = transactions m"
    by (simp add: filter_id_conv)
  then show "delete_transaction i m = (False, m)"
    by (simp add: delete_transaction_def Let_def)
next
  show "fst (update_transaction now i u m) \<longleftrightarrow> (\<exists>t \<in> set (transactions m). txn_id t = i)"
    using update_loop_None_iff [of now i u "transactions m"]
    by (auto simp: update_transaction_def split: option.splits)
next
  show "fst (delete_transaction i m) \<longleftrightarrow> (\<exists>t \<in> set (transactions m). txn_id t = i)"
    using filter_length_less_iff [of "\<lambda>txn. txn_id txn \<noteq> i" "transactions m"]
    by (simp add: delete_transaction_def Let_def)
qed

theorem update_delete_unknown_id_witness:
  "''t2'' \<notin> txn_id ` set (transactions one_expense)
   \<and> update_transaction ''2024-02-01T10:00:00'' ''t2'' no_updates one_expense = (False, one_expense)
   \<and> delete_transaction ''t2'' one_expense = (False, one_expense)
   \<and> fst (update_transaction ''2024-02-01T10:00:00'' ''t1'' no_updates one_expense)
   \<and> fst (delete_transaction ''t1'' one_expense)"
proof -
  have absent: "\<forall>t \<in> set (transactions one_expense). txn_id t \<noteq> ''t2''"
    by (simp add: one_expense_def row_def)
  then have unknown: "''t2'' \<notin> txn_id ` set (transactions one_expense)"
    by auto
  have present: "\<exists>t \<in> set (transactions one_expense). txn_id t = ''t1''"
    by (simp add: one_expense_def row_def)
  from absent unknown present
    update_delete_unknown_id [of one_expense "''t2''" "''2024-02-01T10:00:00''" no_updates]
    update_delete_unknown_id [of one_expense "''t1''" "''2024-02-01T10:00:00''" no_updates]
  show ?thesis by blast
qed

text \<open>
  C7. Neither store checks the amount it is given: \<open>add_transaction\<close> of either manager
  appends a record whose amount is \<open>- 5\<close> as it stands, and \<open>update_transaction\<close>
  overwrites a stored positive amount with \<open>- 5\<close>. The stored amounts are then not all
  positive.
\<close>

theorem stores_accept_negative_amount:
  "map amount (transactions (snd (add_transaction rt now negative_data empty_manager))) = [- 5]
   \<and> map Amount (fm_transactions (FinanceManager_add_transaction
         (fc_row (YMD 2024 1 16) (- 5) ''Expense'' ''Food'')
         \<lparr>fm_transactions = [], fm_saves = 0\<rparr>)) = [- 5]
   \<and> map amount (transactions (snd (update_transaction now ''t1''
         (no_updates\<lparr>u_amount := Some (- 5)\<rparr>) one_expense))) = [- 5]"
  by (simp add: add_transaction_def Transaction_init_def negative_data_def empty_manager_def
      save_data_def FinanceManager_add_transaction_def fc_row_def update_transaction_def
      one_expense_def row_def apply_updates_def or_else_def no_updates_def Let_def)

section \<open>Properties of the floating-point arithmetic\<close>

lemma pow2_powr: "pow2 e = 2 powr (of_int e)"
proof (cases "0 \<le> e")
  case True
  then show ?thesis
    by (simp add: pow2_def powr_real_of_int)
next
  case False
  then show ?thesis
    by (simp add: pow2_def powr_real_of_int field_simps)
qed

lemma floor_log2_bounds:
  assumes "x \<noteq> 0"
  shows "pow2 \<lfloor>log 2 \<bar>x\<bar>\<rfloor> \<le> \<bar>x\<bar>" and "\<bar>x\<bar> < pow2 (\<lfloor>log 2 \<bar>x\<bar>\<rfloor> + 1)"
proof -
  have pos: "0 < \<bar>x\<bar>" using assms by simp
  have "2 powr (of_int \<lfloor>log 2 \<bar>x\<bar>\<rfloor>) \<le> \<bar>x\<bar>
      \<and> \<bar>x\<bar> < 2 powr (of_int (\<lfloor>log 2 \<bar>x\<bar>\<rfloor> + 1))"
    using pos floor_log_eq_powr_iff [of "\<bar>x\<bar>" 2 "\<lfloor>log 2 \<bar>x\<bar>\<rfloor>"] by simp
  then show "pow2 \<lfloor>log 2 \<bar>x\<bar>\<rfloor> \<le> \<bar>x\<bar>" and "\<bar>x\<bar> < pow2 (\<lfloor>log 2 \<bar>x\<bar>\<rfloor> + 1)"
    by (simp_all only: pow2_powr)
qed

text \<open>The exponent of a number between two powers of 2 decides its rounding.\<close>

lemma round_to_double_exponent:
  assumes "pow2 e \<le> \<bar>x\<bar>" and "\<bar>x\<bar> < pow2 (e + 1)"
  shows "round_to_double x = of_int (round_half_even (x / pow2 (e - 52))) * pow2 (e - 52)"
proof -
  have "0 < pow2 e" by (simp add: pow2_powr)
  with assms(1) have pos: "0 < \<bar>x\<bar>" by linarith
  then have nz: "x \<noteq> 0" by auto
  have "2 powr (of_int e) \<le> \<bar>x\<bar> \<and> \<bar>x\<bar> < 2 powr (of_int (e + 1))"
    using assms by (simp only: pow2_powr)
  then have "2 powr (of_int e) \<le> \<bar>x\<bar> \<and> \<bar>x\<bar> < 2 powr (of_int e + 1)"
    by simp
  then have "\<lfloor>log 2 \<bar>x\<bar>\<rfloor> = e"
    using pos floor_log_eq_powr_iff [of "\<bar>x\<bar>" 2 e] by simp
  then show ?thesis
    using nz by (simp add: round_to_double_def Let_def)
qed

lemma round_half_even_of_int: "round_half_even (of_int k) = k"
  by (simp add: round_half_even_def)

lemma pow2_mono: "a \<le> b \<Longrightarrow> pow2 a \<le> pow2 b"
  by (simp add: pow2_powr)

text \<open>An integer below \<open>2\<^sup>5\<^sup>3\<close> in magnitude is a double.\<close>

lemma round_to_double_of_int:
  assumes "\<bar>n\<bar> < 2 ^ 53"
  shows "round_to_double (of_int n) = of_int n"
proof (cases "n = 0")
  case True
  then show ?thesis by (simp add: round_to_double_def)
next
  case False
  let ?x = "real_of_int n"
  let ?e = "\<lfloor>log 2 \<bar>?x\<bar>\<rfloor>"
  have nz: "?x \<noteq> 0" using False by simp
  have one: "1 \<le> \<bar>?x\<bar>" using False by (simp flip: of_int_abs)
  have lt: "\<bar>?x\<bar> < 2 ^ 53"
    using assms by (metis of_int_abs of_int_less_numeral_power_cancel_iff)
  have lo: "pow2 ?e \<le> \<bar>?x\<bar>" and hi: "\<bar>?x\<bar> < pow2 (?e + 1)"
    using floor_log2_bounds [OF nz] by simp_all
  have e0: "0 \<le> ?e"
  proof (rule ccontr)
    assume "\<not> 0 \<le> ?e"
    then have "?e + 1 \<le> 0" by linarith
    then have "pow2 (?e + 1) \<le> pow2 0" by (rule pow2_mono)
    with hi one show False by (simp add: pow2_def)
  qed
  have e52: "?e \<le> 52"
  proof (rule ccontr)
    assume "\<not> ?e \<le> 52"
    then have "53 \<le> ?e" by linarith
    then have "pow2 53 \<le> pow2 ?e" by (rule pow2_mono)
    with lo lt show False by (simp add: pow2_def)
  qed
  define k where "k = nat (52 - ?e)"
  have u: "pow2 (?e - 52) = 1 / 2 ^ k"
  proof (cases "?e = 52")
    case True
    then show ?thesis by (simp add: pow2_def k_def)
  next
    case False
    with e52 have "?e - 52 < 0" by linarith
    then show ?thesis
      by (simp add: pow2_def k_def)
  qed
  have "?x / pow2 (?e - 52) = of_int (n * 2 ^ k)"
    by (simp add: u)
  then have "round_half_even (?x / pow2 (?e - 52)) = n * 2 ^ k"
    by (simp only: round_half_even_of_int)
  then have "round_to_double ?x = of_int (n * 2 ^ k) * (1 / 2 ^ k)"
    using nz by (simp add: round_to_double_def Let_def u)
  then show ?thesis by simp
qed

lemma rnd_numeral [simp]:
  "numeral w < (2 :: int) ^ 53 \<Longrightarrow> round_to_double (numeral w) = numeral w"
  "numeral w < (2 :: int) ^ 53 \<Longrightarrow> round_to_double (- numeral w) = - numeral w"
  "round_to_double 0 = 0" "round_to_double 1 = 1" "round_to_double (- 1) = - 1"
  using round_to_double_of_int [of "numeral w"] round_to_double_of_int [of "- numeral w"]
    round_to_double_of_int [of 1] round_to_double_of_int [of "- 1"]
  by (simp_all add: round_to_double_def)

lemma binary64_simps:
  "rnd binary64 = round_to_double" "series_sum binary64 = sequential_sum"
  "group_sum binary64 = sequential_sum" "np_round binary64 = around"
  by (simp_all add: binary64_def)

section \<open>Properties of the health score\<close>

text \<open>
  C10. For a non-empty list of transactions whose income amounts sum to 0,
  \<open>calculate_financial_health_score\<close> returns the score 0 with an empty breakdown and no
  recommendation, whatever expenses the list holds.
\<close>

theorem health_score_without_income:
  "df \<noteq> [] \<Longrightarrow> series_sum ops (map amount (income_df df)) = 0 \<Longrightarrow>
   calculate_financial_health_score ops df =
     \<lparr>score = Some 0, h_breakdown = None, recommendations = []\<rparr>"
  by (simp add: calculate_financial_health_score_def)

theorem health_score_without_income_witness:
  "transactions one_expense \<noteq> []
   \<and> series_sum binary64 (map amount (income_df (transactions one_expense))) = 0
   \<and> calculate_financial_health_score binary64 (transactions one_expense) =
       \<lparr>score = Some 0, h_breakdown = None, recommendations = []\<rparr>"
proof -
  have nonempty: "transactions one_expense \<noteq> []"
    by (simp add: one_expense_def)
  have no_income: "series_sum binary64 (map amount (income_df (transactions one_expense))) = 0"
    by (simp add: one_expense_def row_def income_df_def binary64_simps sequential_sum_def)
  from nonempty no_income health_score_without_income [OF nonempty no_income]
  show ?thesis by simp
qed

text \<open>The weights of the score as doubles, and the weighted sub-scores of the example.\<close>

lemma rnd_0_4: "round_to_double (2 / 5) = 7205759403792794 / 2 ^ 54"
  by (subst round_to_double_exponent [of "-2"]) (simp_all add: pow2_def round_half_even_def)

lemma rnd_0_3: "round_to_double (3 / 10) = 5404319552844595 / 2 ^ 54"
  by (subst round_to_double_exponent [of "-2"]) (simp_all add: pow2_def round_half_even_def)

lemma rnd_0_2: "round_to_double (1 / 5) = 7205759403792794 / 2 ^ 55"
  by (subst round_to_double_exponent [of "-3"]) (simp_all add: pow2_def round_half_even_def)

lemma rnd_0_1: "round_to_double (1 / 10) = 7205759403792794 / 2 ^ 56"
  by (subst round_to_double_exponent [of "-4"]) (simp_all add: pow2_def round_half_even_def)

lemma weighted_savings: "round_to_double (- 200 * (7205759403792794 / 2 ^ 54)) = - 80"
  by (subst round_to_double_exponent [of 6]) (simp_all add: pow2_def round_half_even_def)

lemma weighted_stability: "round_to_double (40 * (5404319552844595 / 2 ^ 54)) = 12"
  by (subst round_to_double_exponent [of 3]) (simp_all add: pow2_def round_half_even_def)

lemma weighted_diversity: "round_to_double (20 * (7205759403792794 / 2 ^ 55)) = 4"
  by (subst round_to_double_exponent [of 2]) (simp_all add: pow2_def round_half_even_def)

lemma weighted_growth: "round_to_double (50 * (7205759403792794 / 2 ^ 56)) = 5"
  by (subst round_to_double_exponent [of 2]) (simp_all add: pow2_def round_half_even_def)

lemma weights:
  "fmul binary64 (- 200) (rnd binary64 (4 / 10)) = - 80"
  "fmul binary64 40 (rnd binary64 (3 / 10)) = 12"
  "fmul binary64 20 (rnd binary64 (2 / 10)) = 4"
  "fmul binary64 50 (rnd binary64 (1 / 10)) = 5"
proof -
  have "rnd binary64 (4 / 10) = 7205759403792794 / 2 ^ 54"
    using rnd_0_4 by (simp add: binary64_simps)
  then show "fmul binary64 (- 200) (rnd binary64 (4 / 10)) = - 80"
    unfolding fmul_def by (simp only: binary64_simps weighted_savings)
  have "rnd binary64 (3 / 10) = 5404319552844595 / 2 ^ 54"
    using rnd_0_3 by (simp add: binary64_simps)
  then show "fmul binary64 40 (rnd binary64 (3 / 10)) = 12"
    unfolding fmul_def by (simp only: binary64_simps weighted_stability)
  have "rnd binary64 (2 / 10) = 7205759403792794 / 2 ^ 55"
    using rnd_0_2 by (simp add: binary64_simps)
  then show "fmul binary64 20 (rnd binary64 (2 / 10)) = 4"
    unfolding fmul_def by (simp only: binary64_simps weighted_diversity)
  have "rnd binary64 (1 / 10) = 7205759403792794 / 2 ^ 56"
    using rnd_0_1 by (simp add: binary64_simps)
  then show "fmul binary64 50 (rnd binary64 (1 / 10)) = 5"
    unfolding fmul_def by (simp only: binary64_simps weighted_growth)
qed

text \<open>
  C1. With an income of 100 and expenses of 200 in one month the savings rate is
  \<open>- 100\<close>, the savings score \<open>min (- 200) 100 = - 200\<close>, and the weighted sum
  \<open>- 200 * 0.4 + 40 * 0.3 + 20 * 0.2 + 50 * 0.1 = - 59\<close> is returned as the score:
  the savings score has no lower bound, and neither has the score.
\<close>

theorem health_score_below_zero:
  "score (calculate_financial_health_score binary64 overspent) = Some (- 59)
   \<and> map_option savings_score (h_breakdown (calculate_financial_health_score binary64 overspent))
       = Some (- 200)"
proof -
  have sums: "series_sum binary64 (map amount (income_df overspent)) = 100"
    "series_sum binary64 (map amount (expense_df overspent)) = 200"
    by (simp_all add: binary64_simps sequential_sum_def overspent_def row_def income_df_def
        expense_df_def)
  have rate: "fmul binary64 (fdiv binary64 (fsub binary64 100 200) 100) 100 = - 100"
    "fmul binary64 (fdiv binary64 200 100) 100 = 200"
    "fmul binary64 (- 100) 2 = - 200"
    by (simp_all add: fmul_def fdiv_def fsub_def binary64_simps)
  have growth: "calculate_growth_score binary64 overspent = Some (PyInt 50)"
    by (simp add: calculate_growth_score_def groupby_fsum_def overspent_def row_def income_df_def
        month_col_def to_period_M_def)
  have diversity: "calculate_diversity_score overspent = PyInt 20"
    by (simp add: calculate_diversity_score_def overspent_def row_def income_df_def py_min_def)
  have total: "fadd binary64 (fadd binary64 (fadd binary64 (- 80) 12) 4) 5 = - 59"
    by (simp add: fadd_def binary64_simps)
  have rounded: "np_round binary64 (- 59) 1 = - 59" "np_round binary64 (- 200) 1 = - 200"
    "np_round binary64 (- 100) 1 = - 100" "np_round binary64 200 1 = 200"
    by (simp_all add: binary64_simps around_def round_half_even_def)
  have ne: "overspent \<noteq> []" "\<not> 10 < length overspent"
    by (simp_all add: overspent_def)
  show ?thesis
    using ne sums rate growth diversity weights total rounded
    by (simp add: calculate_financial_health_score_def Let_def py_min_def)
qed

section \<open>Properties of the summaries\<close>

lemma sum_list_indicator:
  fixes c :: real
  assumes "distinct ks" and "a \<in> set ks"
  shows "sum_list (map (\<lambda>k. if a = k then c else 0) ks) = c"
proof -
  have "sum_list (map (\<lambda>k. if a = k then c else 0) ks) = (\<Sum>k\<in>set ks. if a = k then c else 0)"
    using assms(1) by (rule sum_list_distinct_conv_sum_set)
  also have "\<dots> = c"
    using assms(2) by simp
  finally show ?thesis .
qed

lemma sum_over_keys:
  fixes col :: "'r \<Rightarrow> real"
  assumes "distinct ks" and "key ` set rows \<subseteq> set ks"
  shows "sum_list (map (\<lambda>k. sum_list (map col (filter (\<lambda>r. key r = k) rows))) ks)
         = sum_list (map col rows)"
  using assms(2)
proof (induction rows)
  case Nil
  then show ?case by simp
next
  case (Cons r rs)
  have split: "(\<lambda>k. sum_list (map col (filter (\<lambda>r. key r = k) (r # rs))))
      = (\<lambda>k. (if key r = k then col r else 0) + sum_list (map col (filter (\<lambda>r. key r = k) rs)))"
    by auto
  have "key r \<in> set ks" using Cons.prems by simp
  then have "sum_list (map (\<lambda>k. if key r = k then col r else 0) ks) = col r"
    using assms(1) by (simp add: sum_list_indicator)
  moreover have "sum_list (map (\<lambda>k. sum_list (map col (filter (\<lambda>r. key r = k) rs))) ks)
      = sum_list (map col rs)"
    using Cons by simp
  ultimately show ?case
    by (simp only: split sum_list_addf list.map sum_list.Cons)
qed

lemma groupby_sum_total:
  "sum_list (map snd (groupby_sum key col rows)) = sum_list (map col rows)"
proof -
  have "sum_list (map snd (groupby_sum key col rows))
      = sum_list (map (\<lambda>k. sum_list (map col (filter (\<lambda>r. key r = k) rows)))
          (sort (remdups (map key rows))))"
    by (simp add: groupby_sum_def comp_def)
  also have "\<dots> = sum_list (map col rows)"
    by (rule sum_over_keys) simp_all
  finally show ?thesis .
qed

lemma groupby_sum_keys:
  "map fst (groupby_sum key col rows) = sort (remdups (map key rows))"
  by (simp add: groupby_sum_def comp_def)

lemma map_of_keyed:
  "map_of (map (\<lambda>k. (k, f k)) ks) k = (if k \<in> set ks then Some (f k) else None)"
  by (induction ks) auto

lemma map_of_groupby_sum:
  "map_of (groupby_sum key col rows) k =
     (if k \<in> key ` set rows
      then Some (sum_list (map col (filter (\<lambda>r. key r = k) rows))) else None)"
  by (simp add: groupby_sum_def map_of_keyed)

text \<open>The summary of \<open>QuantumDataManager\<close>, for every manager: the total expenses are
  the sum of the amounts of the expense rows, the expense breakdown maps each subcategory
  of an expense row to the sum of the amounts of the expense rows with that subcategory
  and no other key, and its values add up to the total expenses; likewise for the income.
  The sums are those of the real numbers the amounts denote.\<close>

lemma QuantumDataManager_breakdowns:
  "dm_total_expenses (get_financial_summary today now m)
     = sum_list (map amount (expense_df (transactions m)))
   \<and> map_of (dm_expense_breakdown (get_financial_summary today now m)) k
     = (if k \<in> type ` set (expense_df (transactions m))
        then Some (sum_list (map amount (filter (\<lambda>r. type r = k) (expense_df (transactions m)))))
        else None)
   \<and> distinct (map fst (dm_expense_breakdown (get_financial_summary today now m)))
   \<and> sum_list (map snd (dm_expense_breakdown (get_financial_summary today now m)))
     = dm_total_expenses (get_financial_summary today now m)
   \<and> dm_total_income (get_financial_summary today now m)
     = sum_list (map amount (income_df (transactions m)))
   \<and> map_of (dm_income_breakdown (get_financial_summary today now m)) k
     = (if k \<in> type ` set (income_df (transactions m))
        then Some (sum_list (map amount (filter (\<lambda>r. type r = k) (income_df (transactions m)))))
        else None)
   \<and> distinct (map fst (dm_income_breakdown (get_financial_summary today now m)))
   \<and> sum_list (map snd (dm_income_breakdown (get_financial_summary today now m)))
     = dm_total_income (get_financial_summary today now m)"
proof (cases "transactions m = []")
  case True
  then show ?thesis
    by (simp add: get_financial_summary_def get_empty_summary_def expense_df_def income_df_def)
next
  case False
  then show ?thesis
    by (simp add: get_financial_summary_def Let_def groupby_sum_total groupby_sum_keys
        map_of_groupby_sum)
qed

lemma QuantumDataManager_scenario:
  "dm_total_income (get_financial_summary (YMD 2024 1 25) ''2024-01-25T10:00:00'' scenario) = 1000
   \<and> dm_total_expenses (get_financial_summary (YMD 2024 1 25) ''2024-01-25T10:00:00'' scenario) = 500
   \<and> dm_savings_rate (get_financial_summary (YMD 2024 1 25) ''2024-01-25T10:00:00'' scenario) = 50
   \<and> dm_expense_breakdown (get_financial_summary (YMD 2024 1 25) ''2024-01-25T10:00:00'' scenario)
       = [(''Food'', 500)]
   \<and> dm_income_breakdown (get_financial_summary (YMD 2024 1 25) ''2024-01-25T10:00:00'' scenario)
       = [(''Salary'', 1000)]"
  by (simp add: get_financial_summary_def scenario_def row_def income_df_def expense_df_def
      groupby_sum_def in_month_def or_else_def Let_def)

text \<open>
  C6. For the scenario of the specification the expenses are 500 and their breakdown is
  500 on food, but \<open>FinanceManager.get_financial_summary\<close> returns no summary that
  holds them: it ends in a \<open>TypeError\<close>, as for every list with an expense row.
\<close>

theorem summary_raises_on_scenario:
  "sum_list (map Amount (Expense_rows one_month)) = 500
   \<and> groupby_sum Subcategory Amount (Expense_rows one_month) = [(''Food'', 500)]
   \<and> FinanceManager_get_financial_summary object_strings (YMD 2024 1 25)
         \<lparr>fm_transactions = one_month, fm_saves = 0\<rparr> = Inl TypeError"
  by (simp add: FinanceManager_get_financial_summary_def one_month_def fc_row_def
      Income_rows_def Expense_rows_def groupby_sum_def Let_def)

lemma sublist_sum_zero:
  fixes xs :: "real list"
  assumes "\<forall>x \<in> set xs. 0 \<le> x" and "sum_list xs = 0"
  shows "\<forall>x \<in> set xs. x = 0"
  using assms sum_list_nonneg_eq_0_iff [of xs] by auto

text \<open>The guards of the ratios: a summary that \<open>FinanceManager.get_financial_summary\<close>
  returns has the savings rate and the expense ratio 0 when its total income is 0, and the
  savings rate of the \<open>QuantumDataManager\<close> summary is 0 when the income of the current
  month is 0, hence, with amounts that are not negative, when the total income is 0.\<close>

lemma ratio_guards:
  "(FinanceManager_get_financial_summary object_strings today fm = Inr s \<and> total_income s = 0 \<longrightarrow>
      savings_rate s = 0 \<and> expense_ratio s = 0)
   \<and> (dm_current_month_income (get_financial_summary today now m) = 0 \<longrightarrow>
      dm_savings_rate (get_financial_summary today now m) = 0)
   \<and> ((\<forall>t \<in> set (transactions m). 0 \<le> amount t)
        \<and> dm_total_income (get_financial_summary today now m) = 0 \<longrightarrow>
      dm_savings_rate (get_financial_summary today now m) = 0)"
proof (intro conjI impI)
  assume "FinanceManager_get_financial_summary object_strings today fm = Inr s \<and> total_income s = 0"
  then show "savings_rate s = 0"
    by (auto simp: FinanceManager_get_financial_summary_def Let_def fc_get_empty_summary_def
        split: if_splits)
next
  assume "FinanceManager_get_financial_summary object_strings today fm = Inr s \<and> total_income s = 0"
  then show "expense_ratio s = 0"
    by (auto simp: FinanceManager_get_financial_summary_def Let_def fc_get_empty_summary_def
        split: if_splits)
next
  assume "dm_current_month_income (get_financial_summary today now m) = 0"
  then show "dm_savings_rate (get_financial_summary today now m) = 0"
    by (simp add: get_financial_summary_def Let_def get_empty_summary_def split: if_splits)
next
  assume h: "(\<forall>t \<in> set (transactions m). 0 \<le> amount t)
        \<and> dm_total_income (get_financial_summary today now m) = 0"
  show "dm_savings_rate (get_financial_summary today now m) = 0"
  proof (cases "transactions m = []")
    case True
    then show ?thesis by (simp add: get_financial_summary_def get_empty_summary_def)
  next
    case False
    with h have total: "sum_list (map amount (income_df (transactions m))) = 0"
      by (simp add: get_financial_summary_def Let_def)
    have nonneg: "\<forall>x \<in> set (map amount (income_df (transactions m))). 0 \<le> x"
      using h by (auto simp: income_df_def)
    have "\<forall>x \<in> set (map amount (income_df (transactions m))). x = 0"
      using sublist_sum_zero [OF nonneg total] .
    then have "\<forall>x \<in> set (map amount (filter (in_month today) (income_df (transactions m)))). x = 0"
      by auto
    then have "sum_list (map amount (filter (in_month today) (income_df (transactions m)))) = 0"
      by (metis sum_list_nonneg_eq_0_iff order_refl)
    then show ?thesis
      using False by (simp add: get_financial_summary_def Let_def)
  qed
qed

text \<open>
  C2. For the two expenses of \<open>expenses_only\<close> the total income is 0, and
  \<open>FinanceManager.get_financial_summary\<close> returns no summary: it ends in a
  \<open>TypeError\<close>, where the savings rate and the expense ratio should be 0.
\<close>

theorem summary_raises_on_expenses:
  "sum_list (map Amount (Income_rows expenses_only)) = 0
   \<and> FinanceManager_get_financial_summary object_strings (YMD 2024 2 20)
         \<lparr>fm_transactions = expenses_only, fm_saves = 0\<rparr> = Inl TypeError"
  by (simp add: FinanceManager_get_financial_summary_def expenses_only_def fc_row_def
      Income_rows_def Expense_rows_def Let_def)

section \<open>Properties of the forecasts\<close>

text \<open>
  C3. \<open>predict_future_balance\<close> returns the empty dictionary whenever the transactions
  fall into fewer than two months, and whenever there are fewer than three of them.
  \<open>forecast_spending\<close> returns the empty list whenever there are fewer than three
  expense rows, in particular for fewer than three transactions; the number of months
  is not what it looks at. Neither result holds a prediction.
\<close>

theorem forecasts_empty_on_little_data:
  "(card (Month ` set (fm_transactions fm)) < 2 \<longrightarrow> predict_future_balance fm months = Inr None)
   \<and> (length (fm_transactions fm) < 3 \<longrightarrow> predict_future_balance fm months = Inr None)
   \<and> (length (expense_df df) < 3 \<longrightarrow> forecast_spending df months = [])
   \<and> (length df < 3 \<longrightarrow> forecast_spending df months = [])"
proof (intro conjI impI)
  assume "card (Month ` set (fm_transactions fm)) < 2"
  then have "length (monthly_Balance (fm_transactions fm)) < 2"
    by (simp add: monthly_Balance_def length_remdups_card_conv)
  then show "predict_future_balance fm months = Inr None"
    by (simp add: predict_future_balance_def Let_def)
next
  assume "length (fm_transactions fm) < 3"
  then show "predict_future_balance fm months = Inr None"
    by (simp add: predict_future_balance_def Let_def)
next
  assume "length (expense_df df) < 3"
  then show "forecast_spending df months = []"
    by (simp add: forecast_spending_def Let_def)
next
  assume "length df < 3"
  moreover have "length (expense_df df) \<le> length df"
    by (simp add: expense_df_def)
  ultimately show "forecast_spending df months = []"
    by (simp add: forecast_spending_def Let_def)
qed

theorem forecasts_empty_on_little_data_witness:
  "card (Month ` set one_month) < 2
   \<and> predict_future_balance \<lparr>fm_transactions = one_month, fm_saves = 0\<rparr> 6 = Inr None
   \<and> length (transactions one_expense) < 3
   \<and> forecast_spending (transactions one_expense) 6 = []"
proof -
  have months: "card (Month ` set (fm_transactions \<lparr>fm_transactions = one_month, fm_saves = 0\<rparr>)) < 2"
    by (simp add: one_month_def fc_row_def Month_def to_period_M_def)
  have rows: "length (transactions one_expense) < 3"
    by (simp add: one_expense_def)
  from months rows
    forecasts_empty_on_little_data [of "\<lparr>fm_transactions = one_month, fm_saves = 0\<rparr>" 6
      "transactions one_expense"]
  show ?thesis by simp
qed

text \<open>For three expenses in one month, hence fewer than two monthly buckets,
  \<open>forecast_spending\<close> returns three predictions: the mean of that month with the
  growth factor.\<close>

theorem forecast_spending_single_month:
  "card (month_col ` set january_expenses) = 1
   \<and> map predicted_amount (forecast_spending january_expenses 3) = [600, 612, 624]"
  by (simp add: january_expenses_def row_def month_col_def to_period_M_def forecast_spending_def
      expense_df_def groupby_sum_def tail_def mean_def Let_def upt_rec)

section \<open>Properties of the monthly trend\<close>

lemma sorted_last_Max:
  fixes xs :: "nat list"
  assumes "sorted xs" and "xs \<noteq> []"
  shows "last xs = Max (set xs)"
proof (rule sym, rule Max_eqI)
  show "finite (set xs)" by simp
  show "last xs \<in> set xs" using assms(2) by simp
  fix y assume "y \<in> set xs"
  then obtain i where i: "i < length xs" "xs ! i = y"
    by (auto simp: in_set_conv_nth)
  then have "i \<le> length xs - 1" by simp
  moreover have "length xs - 1 < length xs" using assms(2) by simp
  ultimately have "xs ! i \<le> xs ! (length xs - 1)"
    using assms(1) by (simp add: sorted_nth_mono)
  then show "y \<le> last xs"
    using i assms(2) by (simp add: last_conv_nth)
qed

lemma set_butlast_distinct:
  assumes "distinct xs" and "xs \<noteq> []"
  shows "set (butlast xs) = set xs - {last xs}"
proof -
  have eq: "xs = butlast xs @ [last xs]" using assms(2) by simp
  have "distinct (butlast xs @ [last xs])" using assms(1) eq by simp
  then have notin: "last xs \<notin> set (butlast xs)" by simp
  have "set xs = set (butlast xs) \<union> {last xs}"
    using eq by (metis set_append list.set(1) list.set(2))
  with notin show ?thesis by auto
qed

lemma sorted_distinct_second_last:
  fixes xs :: "nat list"
  assumes "sorted xs" and "distinct xs" and "2 \<le> length xs"
  shows "xs ! (length xs - 2) = Max (set xs - {Max (set xs)})"
proof -
  from assms(3) have ne: "xs \<noteq> []" by auto
  have l: "last xs = Max (set xs)"
    using assms(1) ne by (rule sorted_last_Max)
  have bne: "butlast xs \<noteq> []"
  proof
    assume "butlast xs = []"
    then have "length (butlast xs) = 0" by (simp only: list.size)
    then have "length xs - 1 = 0" by simp
    with assms(3) show False by linarith
  qed
  have "sorted (butlast xs)"
    using assms(1) ne by (simp add: sorted_butlast)
  then have "last (butlast xs) = Max (set (butlast xs))"
    using bne by (rule sorted_last_Max)
  moreover have "set (butlast xs) = set xs - {last xs}"
    using assms(2) ne by (rule set_butlast_distinct)
  moreover have "last (butlast xs) = xs ! (length xs - 2)"
  proof -
    have "last (butlast xs) = butlast xs ! (length (butlast xs) - 1)"
      using bne by (rule last_conv_nth)
    also have "\<dots> = xs ! (length (butlast xs) - 1)"
    proof (rule nth_butlast)
      show "length (butlast xs) - 1 < length (butlast xs)"
        using assms(3) by simp
    qed
    also have "length (butlast xs) - 1 = length xs - 2" by simp
    finally show ?thesis .
  qed
  ultimately show ?thesis using l by simp
qed

lemma monthly_series:
  "map snd (groupby_fsum ops month_col amount (expense_df df))
     = map (month_expenses ops df) (sort (remdups (map month_col (expense_df df))))"
  by (simp add: groupby_fsum_def month_expenses_def comp_def)

lemma expense_month_keys:
  "set (sort (remdups (map month_col (expense_df df)))) = expense_months df"
  "length (sort (remdups (map month_col (expense_df df)))) = card (expense_months df)"
  by (simp_all add: expense_months_def length_remdups_card_conv)

lemma latest_two_months:
  fixes ops :: float_ops
  assumes "2 \<le> card (expense_months df)"
  defines "ms \<equiv> map snd (groupby_fsum ops month_col amount (expense_df df))"
  shows "last ms = month_expenses ops df (Max (expense_months df))"
    and "ms ! (length ms - 2)
           = month_expenses ops df (Max (expense_months df - {Max (expense_months df)}))"
    and "length ms = card (expense_months df)"
proof -
  let ?ks = "sort (remdups (map month_col (expense_df df)))"
  have ms: "ms = map (month_expenses ops df) ?ks"
    unfolding ms_def by (rule monthly_series)
  have len: "length ?ks = card (expense_months df)"
    by (rule expense_month_keys)
  with assms(1) have two: "2 \<le> length ?ks" by simp
  then have "length ?ks \<noteq> 0" by linarith
  then have ne: "?ks \<noteq> []" by (metis list.size(3))
  have srt: "sorted ?ks" by simp
  have dst: "distinct ?ks" by simp
  have "last ?ks = Max (set ?ks)"
    using srt ne by (rule sorted_last_Max)
  then have l: "last ?ks = Max (expense_months df)"
    by (simp only: expense_month_keys)
  have "?ks ! (length ?ks - 2) = Max (set ?ks - {Max (set ?ks)})"
    using srt dst two by (rule sorted_distinct_second_last)
  then have p: "?ks ! (length ?ks - 2) = Max (expense_months df - {Max (expense_months df)})"
    by (simp only: expense_month_keys)
  show "last ms = month_expenses ops df (Max (expense_months df))"
    using ne l by (simp add: ms last_map)
  have "length ?ks - 2 < length ?ks" using two by simp
  then have "map (month_expenses ops df) ?ks ! (length ?ks - 2)
      = month_expenses ops df (?ks ! (length ?ks - 2))"
    by (rule nth_map)
  then show "ms ! (length ms - 2)
           = month_expenses ops df (Max (expense_months df - {Max (expense_months df)}))"
    using p by (simp add: ms)
  show "length ms = card (expense_months df)"
    using len by (simp add: ms)
qed

text \<open>
  C5. When at least two months have an expense, take the latest of them as the current
  month and the latest before it as the previous one, each with the sum of its expenses
  as the library computes it. \<open>calculate_monthly_trend\<close> then classifies the
  month-over-month change of the two sums, computed in floats: increasing exactly when
  it is above 5, decreasing exactly when it is below \<open>- 5\<close>, stable otherwise. The
  change it reports is that float rounded to one decimal, and the \<^verbatim>\<open>int\<close> 0 where
  the previous sum is 0. With fewer than two such months the result is stable with
  change 0. This holds for every arithmetic of the floats.
\<close>

theorem monthly_trend_classification:
  "(2 \<le> card (expense_months df) \<longrightarrow>
      (let cur = Max (expense_months df);
           prev = Max (expense_months df - {cur});
           current = month_expenses ops df cur;
           previous = month_expenses ops df prev;
           c = month_over_month ops current previous;
           r = calculate_monthly_trend ops df
       in (trend r = increasing \<longleftrightarrow> 5 < c)
          \<and> (trend r = decreasing \<longleftrightarrow> c < - 5)
          \<and> (trend r = stable \<longleftrightarrow> - 5 \<le> c \<and> c \<le> 5)
          \<and> change_percent r = (if previous \<noteq> 0 then np_round ops c 1 else 0)
          \<and> current_month r = Some current))
   \<and> (card (expense_months df) < 2 \<longrightarrow>
        calculate_monthly_trend ops df
          = \<lparr>trend = stable, change_percent = 0, current_month = None, average_monthly = None\<rparr>)"
proof (intro conjI impI)
  assume two: "2 \<le> card (expense_months df)"
  let ?ms = "map snd (groupby_fsum ops month_col amount (expense_df df))"
  have len: "\<not> length ?ms < 2"
    using latest_two_months(3) [OF two, where ops = ops] two by simp
  note cur = latest_two_months(1) [OF two, where ops = ops]
  note prev = latest_two_months(2) [OF two, where ops = ops]
  show "let cur = Max (expense_months df);
           prev = Max (expense_months df - {cur});
           current = month_expenses ops df cur;
           previous = month_expenses ops df prev;
           c = month_over_month ops current previous;
           r = calculate_monthly_trend ops df
       in (trend r = increasing \<longleftrightarrow> 5 < c)
          \<and> (trend r = decreasing \<longleftrightarrow> c < - 5)
          \<and> (trend r = stable \<longleftrightarrow> - 5 \<le> c \<and> c \<le> 5)
          \<and> change_percent r = (if previous \<noteq> 0 then np_round ops c 1 else 0)
          \<and> current_month r = Some current"
    using len cur prev
    by (simp add: calculate_monthly_trend_def Let_def month_over_month_def)
next
  assume "card (expense_months df) < 2"
  then have "length (map snd (groupby_fsum ops month_col amount (expense_df df))) < 2"
    by (simp add: groupby_fsum_def length_remdups_card_conv expense_months_def)
  then show "calculate_monthly_trend ops df
      = \<lparr>trend = stable, change_percent = 0, current_month = None, average_monthly = None\<rparr>"
    by (simp add: calculate_monthly_trend_def Let_def)
qed

text \<open>Expenses of 80 and then 103: the change is the double \<open>28.749999999999996\<close>,
  below the exact \<open>28.75\<close>, and the change reported is the double nearest to
  \<open>28.7\<close>.\<close>

lemma rising_change:
  "month_over_month binary64 103 80 = change_80_103"
  "np_round binary64 change_80_103 1 = double_28_7"
  "round_to_double (287 / 10) = double_28_7"
  "5 < change_80_103"
  "fmul binary64 (fdiv binary64 23 80) 100 = change_80_103"
proof -
  have q: "round_to_double (23 / 80) = 5179139571476070 / 2 ^ 54"
    by (subst round_to_double_exponent [of "-2"]) (simp_all add: pow2_def round_half_even_def)
  have c: "round_to_double (5179139571476070 / 2 ^ 54 * 100) = change_80_103"
    unfolding change_80_103_def
    by (subst round_to_double_exponent [of 4]) (simp_all add: pow2_def round_half_even_def)
  have e1: "fsub binary64 103 80 = 23"
    by (simp add: fsub_def binary64_simps)
  have e2: "fdiv binary64 23 80 = 5179139571476070 / 2 ^ 54"
    unfolding fdiv_def by (simp only: binary64_simps q)
  have e3: "fmul binary64 (5179139571476070 / 2 ^ 54) 100 = change_80_103"
    unfolding fmul_def by (simp only: binary64_simps c)
  have "month_over_month binary64 103 80
      = fmul binary64 (fdiv binary64 (fsub binary64 103 80) 80) 100"
    by (simp add: month_over_month_def)
  then show "month_over_month binary64 103 80 = change_80_103"
    by (simp only: e1 e2 e3)
  have s: "round_to_double (change_80_103 * 10 ^ 1) = 5057753487769599 / 2 ^ 44"
    unfolding change_80_103_def
    by (subst round_to_double_exponent [of 8]) (simp_all add: pow2_def round_half_even_def)
  have i: "round_half_even (5057753487769599 / 2 ^ 44) = 287"
    by (simp add: round_half_even_def)
  have d: "round_to_double (of_int 287 / 10 ^ 1) = double_28_7"
    unfolding double_28_7_def
    by (subst round_to_double_exponent [of 4]) (simp_all add: pow2_def round_half_even_def)
  show "np_round binary64 change_80_103 1 = double_28_7"
    by (simp only: binary64_simps around_def s i d)
  show "round_to_double (287 / 10) = double_28_7"
    unfolding double_28_7_def
    by (subst round_to_double_exponent [of 4]) (simp_all add: pow2_def round_half_even_def)
  show "5 < change_80_103"
    by (simp add: change_80_103_def)
  show "fmul binary64 (fdiv binary64 23 80) 100 = change_80_103"
    by (simp only: e2 e3)
qed

theorem monthly_trend_classification_witness:
  "2 \<le> card (expense_months rising)
   \<and> Max (expense_months rising) = 24289
   \<and> Max (expense_months rising - {24289}) = 24288
   \<and> month_expenses binary64 rising 24289 = 103
   \<and> month_expenses binary64 rising 24288 = 80
   \<and> month_over_month binary64 103 80 = change_80_103
   \<and> trend (calculate_monthly_trend binary64 rising) = increasing
   \<and> change_percent (calculate_monthly_trend binary64 rising) = double_28_7
   \<and> card (expense_months (transactions one_expense)) < 2
   \<and> trend (calculate_monthly_trend binary64 (transactions one_expense)) = stable"
proof -
  have months: "expense_months rising = {24288, 24289}"
    by (simp add: expense_months_def rising_def row_def expense_df_def month_col_def
        to_period_M_def)
  have two: "2 \<le> card (expense_months rising)"
    by (simp add: months)
  have cur: "Max (expense_months rising) = 24289"
    by (simp add: months)
  have "{24288, 24289} - {24289} = {24288 :: nat}"
    by auto
  then have prev: "Max (expense_months rising - {24289}) = 24288"
    by (simp add: months)
  have current: "month_expenses binary64 rising 24289 = 103"
    by (simp add: month_expenses_def rising_def row_def expense_df_def month_col_def
        to_period_M_def binary64_simps sequential_sum_def)
  have previous: "month_expenses binary64 rising 24288 = 80"
    by (simp add: month_expenses_def rising_def row_def expense_df_def month_col_def
        to_period_M_def binary64_simps sequential_sum_def)
  note c = rising_change(1)
  note r = rising_change(2)
  note big = rising_change(4)
  have one: "card (expense_months (transactions one_expense)) < 2"
    by (simp add: expense_months_def one_expense_def row_def expense_df_def)
  have up: "trend (calculate_monthly_trend binary64 rising) = increasing
      \<and> change_percent (calculate_monthly_trend binary64 rising) = double_28_7"
    using two cur prev current previous c r big
      monthly_trend_classification [of rising binary64]
    by (simp add: Let_def)
  have flat: "trend (calculate_monthly_trend binary64 (transactions one_expense)) = stable"
    using one monthly_trend_classification [of "transactions one_expense" binary64]
    by simp
  from two cur prev current previous c up one flat show ?thesis
    by simp
qed

text \<open>Expenses of 61.4 and then 64.47: the exact change of the two doubles is above 5,
  the change in floats is the double 5, and the trend is stable.\<close>

lemma steady_trend:
  "round_to_double (614 / 10) = double_61_4 \<and> round_to_double (6447 / 100) = double_64_47
   \<and> 5 < (double_64_47 - double_61_4) / double_61_4 * 100
   \<and> month_over_month binary64 double_64_47 double_61_4 = 5
   \<and> trend (calculate_monthly_trend binary64 steady) = stable
   \<and> change_percent (calculate_monthly_trend binary64 steady) = 5"
proof -
  have a: "round_to_double (614 / 10) = double_61_4"
    unfolding double_61_4_def
    by (subst round_to_double_exponent [of 5]) (simp_all add: pow2_def round_half_even_def)
  have b: "round_to_double (6447 / 100) = double_64_47"
    unfolding double_64_47_def
    by (subst round_to_double_exponent [of 6]) (simp_all add: pow2_def round_half_even_def)
  have a': "round_to_double double_61_4 = double_61_4"
    unfolding double_61_4_def
    by (subst round_to_double_exponent [of 5]) (simp_all add: pow2_def round_half_even_def)
  have b': "round_to_double double_64_47 = double_64_47"
    unfolding double_64_47_def
    by (subst round_to_double_exponent [of 6]) (simp_all add: pow2_def round_half_even_def)
  have nz: "double_61_4 \<noteq> 0"
    by (simp add: double_61_4_def)
  have exact: "5 < (double_64_47 - double_61_4) / double_61_4 * 100"
    by (simp add: double_61_4_def double_64_47_def)
  have d: "round_to_double (double_64_47 - double_61_4) = 6913025428013712 / 2 ^ 51"
    unfolding double_61_4_def double_64_47_def
    by (subst round_to_double_exponent [of 1]) (simp_all add: pow2_def round_half_even_def)
  have q: "round_to_double (6913025428013712 / 2 ^ 51 / double_61_4) = 7205759403792794 / 2 ^ 57"
    unfolding double_61_4_def
    by (subst round_to_double_exponent [of "-5"]) (simp_all add: pow2_def round_half_even_def)
  have c: "round_to_double (7205759403792794 / 2 ^ 57 * 100) = 5"
    by (subst round_to_double_exponent [of 2]) (simp_all add: pow2_def round_half_even_def)
  have change: "fmul binary64 (fdiv binary64 (fsub binary64 double_64_47 double_61_4) double_61_4) 100 = 5"
    unfolding fmul_def fdiv_def fsub_def by (simp only: binary64_simps d q c)
  then have mom: "month_over_month binary64 double_64_47 double_61_4 = 5"
    using nz by (simp add: month_over_month_def)
  have series: "map snd (groupby_fsum binary64 month_col amount (expense_df steady))
      = [double_61_4, double_64_47]"
    by (simp add: groupby_fsum_def steady_def row_def expense_df_def month_col_def
        to_period_M_def binary64_simps sequential_sum_def a' b')
  have r: "np_round binary64 5 1 = 5"
    by (simp add: binary64_simps around_def round_half_even_def)
  have "trend (calculate_monthly_trend binary64 steady) = stable
      \<and> change_percent (calculate_monthly_trend binary64 steady) = 5"
    using change r nz
    by (simp add: calculate_monthly_trend_def Let_def series)
  with a b exact mom show ?thesis by simp
qed

text \<open>The health score rounds the same way: for an income of 80 and an expense of 23 the
  expense ratio of the breakdown is the double nearest to \<open>28.7\<close>.\<close>

lemma thrifty_expense_ratio:
  "map_option b_expense_ratio (h_breakdown (calculate_financial_health_score binary64 thrifty))
     = Some double_28_7"
proof -
  have sums: "series_sum binary64 (map amount (income_df thrifty)) = 80"
    "series_sum binary64 (map amount (expense_df thrifty)) = 23"
    by (simp_all add: binary64_simps sequential_sum_def thrifty_def row_def income_df_def
        expense_df_def)
  have ne: "thrifty \<noteq> []" by (simp add: thrifty_def)
  show ?thesis
    using ne sums rising_change(5) rising_change(2)
    by (simp add: calculate_financial_health_score_def Let_def)
qed

section \<open>Properties of the anomaly detection\<close>











section \<open>Properties of the identifiers\<close>

lemma digit_char_inj:
  assumes "a < 10" and "b < 10" and "digit_char a = digit_char b"
  shows "a = b"
proof -
  have "distinct ''0123456789''" by simp
  moreover have "a < length ''0123456789''" "b < length ''0123456789''"
    using assms(1,2) by simp_all
  ultimately show ?thesis
    using assms(3) unfolding digit_char_def by (simp only: nth_eq_iff_index_eq)
qed

lemma digit_char_not_minus:
  assumes "d < 10"
  shows "digit_char d \<noteq> CHR ''-''"
proof -
  have "d < length ''0123456789''" using assms by simp
  then have "''0123456789'' ! d \<in> set ''0123456789''" by (rule nth_mem)
  moreover have "CHR ''-'' \<notin> set ''0123456789''" by simp
  ultimately show ?thesis unfolding digit_char_def by metis
qed

lemma str_nat_not_Nil: "str_nat n \<noteq> []"
  by (subst str_nat.simps) simp

lemma str_nat_last: "last (str_nat n) = digit_char (n mod 10)"
  by (subst str_nat.simps) simp

lemma str_nat_butlast: "butlast (str_nat n) = (if n < 10 then [] else str_nat (n div 10))"
  by (subst str_nat.simps) simp

lemma str_nat_hd: "hd (str_nat n) \<noteq> CHR ''-''"
proof (induction n rule: str_nat.induct)
  case (1 n)
  show ?case
  proof (cases "n < 10")
    case True
    then show ?thesis
      by (subst str_nat.simps) (simp add: digit_char_not_minus)
  next
    case False
    then have "hd (str_nat n) = hd (str_nat (n div 10))"
      by (subst str_nat.simps) (simp add: str_nat_not_Nil)
    with 1 False show ?thesis by simp
  qed
qed

lemma str_nat_inj: "str_nat n = str_nat m \<Longrightarrow> n = m"
proof (induction n arbitrary: m rule: str_nat.induct)
  case (1 n)
  from "1.prems" have "last (str_nat n) = last (str_nat m)" by simp
  then have "digit_char (n mod 10) = digit_char (m mod 10)"
    by (simp only: str_nat_last)
  then have units: "n mod 10 = m mod 10"
    by (intro digit_char_inj) simp_all
  from "1.prems" have "butlast (str_nat n) = butlast (str_nat m)" by simp
  then have rest: "(if n < 10 then [] else str_nat (n div 10))
      = (if m < 10 then [] else str_nat (m div 10))"
    by (simp only: str_nat_butlast)
  show ?case
  proof (cases "n < 10")
    case True
    with rest have "m < 10"
      using str_nat_not_Nil [of "m div 10"] by (auto split: if_splits)
    with True units show ?thesis by simp
  next
    case False
    with rest have m: "\<not> m < 10"
      using str_nat_not_Nil [of "n div 10"] by (auto split: if_splits)
    with False rest have "str_nat (n div 10) = str_nat (m div 10)" by simp
    with False have "n div 10 = m div 10" by (intro "1.IH") simp_all
    with units show ?thesis
      by (metis div_mult_mod_eq)
  qed
qed

lemma str_int_inj: "str_int i = str_int j \<Longrightarrow> i = j"
proof -
  assume eq: "str_int i = str_int j"
  have neg: "\<And>k. k < 0 \<Longrightarrow> hd (str_int k) = CHR ''-''"
    by (simp add: str_int_def)
  have pos: "\<And>k. \<not> k < 0 \<Longrightarrow> hd (str_int k) \<noteq> CHR ''-''"
    by (simp add: str_int_def str_nat_hd)
  show "i = j"
  proof (cases "i < 0")
    case True
    with eq neg pos have "j < 0" by metis
    with True eq have "str_nat (nat (- i)) = str_nat (nat (- j))"
      by (simp add: str_int_def)
    then have "nat (- i) = nat (- j)" by (rule str_nat_inj)
    with True \<open>j < 0\<close> show ?thesis by simp
  next
    case False
    with eq neg pos have "\<not> j < 0" by metis
    with False eq have "str_nat (nat i) = str_nat (nat j)"
      by (simp add: str_int_def)
    then have "nat i = nat j" by (rule str_nat_inj)
    with False \<open>\<not> j < 0\<close> show ?thesis by simp
  qed
qed

text \<open>The identifier that \<open>QuantumDataManager.add_transaction\<close> synthesizes is the same
  for the same date, amount and description, whatever the stored transactions and the
  time.\<close>

lemma add_transaction_id_deterministic:
  assumes "d_id d = None" and "d_id d' = None"
    and "d_date d = d_date d'" and "d_amount d = d_amount d'"
    and "d_description d = d_description d'"
  shows "fst (add_transaction rt now d m) = fst (add_transaction rt now' d' m')"
  using assms by (simp add: add_transaction_def Transaction_init_def Let_def)

text \<open>
  C8. The identifier that the constructor of \<open>finance_core.py\<close> synthesizes ends in
  the hash of the description, and that hash depends on the seed of the process: two
  processes whose seeds give the description different hashes give the same date,
  amount and description different identifiers.
\<close>

theorem Transaction_id_depends_on_hash_seed:
  "hash_str rt seed1 descr \<noteq> hash_str rt seed2 descr \<Longrightarrow>
   ID (fc_Transaction_init rt seed1 d a c sub descr None)
     \<noteq> ID (fc_Transaction_init rt seed2 d a c sub descr None)"
proof
  assume diff: "hash_str rt seed1 descr \<noteq> hash_str rt seed2 descr"
  assume "ID (fc_Transaction_init rt seed1 d a c sub descr None)
     = ID (fc_Transaction_init rt seed2 d a c sub descr None)"
  then have "str_int (hash_str rt seed1 descr) = str_int (hash_str rt seed2 descr)"
    by (simp add: fc_Transaction_init_def)
  then have "hash_str rt seed1 descr = hash_str rt seed2 descr"
    by (rule str_int_inj)
  with diff show False by simp
qed

theorem Transaction_id_depends_on_hash_seed_witness:
  "hash_str toy_runtime 1 ''Lunch'' \<noteq> hash_str toy_runtime 2 ''Lunch''
   \<and> ID (fc_Transaction_init toy_runtime 1 (YMD 2024 1 16) 300 ''Expense'' ''Food'' ''Lunch'' None)
       \<noteq> ID (fc_Transaction_init toy_runtime 2 (YMD 2024 1 16) 300 ''Expense'' ''Food'' ''Lunch'' None)"
proof -
  have diff: "hash_str toy_runtime 1 ''Lunch'' \<noteq> hash_str toy_runtime 2 ''Lunch''"
    by (simp add: toy_runtime_def)
  from diff Transaction_id_depends_on_hash_seed [OF diff]
  show ?thesis by simp
qed

lemma toy_ids:
  "ID (fc_Transaction_init toy_runtime 1 (YMD 2024 1 16) 300 ''Expense'' ''Food'' ''Lunch'' None) = ''2024-1-16_300_6''"
  by (simp add: fc_Transaction_init_def toy_runtime_def str_int_def str_nat.simps digit_char_def)

end
